theory Spec2Isabelle
  imports Complex_Main
begin

section \<open>Conventions\<close>

text \<open>
  The development embeds the core of \<^verbatim>\<open>src/orchestrator.py\<close>: the token budget
  governor, the invocation of an external agent, the exchange state machine of one task,
  the task graph normalizer and the scheduler loop.

  A Python \<^verbatim>\<open>str\<close> is a list of Unicode code points (\<open>ustr\<close>), because the source
  compares, strips and pattern-matches Japanese text; \<open>u\<close> turns an ASCII literal into
  such a list. Text that the program only prints to standard error is a constructor of
  \<open>log_line\<close>. Everything the program obtains from outside (the result of a subprocess,
  the record another thread wrote) is an argument of the function that consumes it.
\<close>

type_synonym ustr = "nat list"

definition u :: "string \<Rightarrow> ustr" where
  "u s = map of_char s"

section \<open>Token budget governor\<close>

subsection \<open>The ledger (class TokenUsage)\<close>

record history_entry =
  h_label :: ustr
  h_input :: int
  h_output :: int
  h_combined :: int
  h_cumulative :: int

text \<open>
  The thresholds and the usage ratio are Python floats; they are exact rationals here.
  No statement below depends on how a comparison against a threshold comes out.
\<close>

record TokenUsage =
  total_input :: int
  total_output :: int
  total_combined :: int
  call_count :: int
  history :: "history_entry list"
  warning_threshold :: rat
  compact_threshold :: rat
  max_tokens :: int

definition usage_ratio :: "TokenUsage \<Rightarrow> rat" where
  "usage_ratio t =
     (if max_tokens t \<le> 0 then 0 else of_int (total_combined t) / of_int (max_tokens t))"

subsection \<open>The callbacks that \<^verbatim>\<open>run\<close> installs\<close>

datatype role = Rewriter | Concertmaster | Performer

datatype cli_type = Claude | Codex | Unknown

text \<open>
  \<open>cmd_kind\<close> is what \<^verbatim>\<open>detect_cli_type\<close> answers for the command configured for a role
  inside \<^verbatim>\<open>on_compact_needed\<close>.
\<close>

record config =
  max_compact_attempts :: int
  verbose :: bool
  cmd_kind :: "role \<Rightarrow> cli_type"

text \<open>
  The subprocesses of a mitigation cycle, by attempt number and role: whether
  \<^verbatim>\<open>call_compact_command\<close> returned True, and what \<^verbatim>\<open>call_status_command\<close> printed.
\<close>

record compact_env =
  compact_ok :: "int \<Rightarrow> role \<Rightarrow> bool"
  status_output :: "int \<Rightarrow> role \<Rightarrow> ustr"

record compact_result =
  r_name :: role
  r_cli_type :: cli_type
  r_success :: bool

record compact_event =
  e_attempt :: int
  e_results :: "compact_result list"
  e_any_success :: bool
  e_usage_before :: int

datatype log_line =
    LogTokenWarning
  | LogCompactLimit int
  | LogCompactStart int int
  | LogStatus role cli_type ustr
  | LogCompactDone role cli_type
  | LogCompactFailed role cli_type
  | LogDeadlock

text \<open>
  The variables that the closures of \<^verbatim>\<open>run\<close> share: the ledger, the one-element lists
  \<^verbatim>\<open>compact_attempts\<close>, \<^verbatim>\<open>warning_fired\<close> and \<^verbatim>\<open>compact_fired\<close>, the entries of
  \<^verbatim>\<open>compact_events.json\<close>, the lines printed to standard error, and the stage of every
  \<^verbatim>\<open>write_status\<close> call, oldest first.
\<close>

record run_state =
  tracker :: TokenUsage
  compact_attempts :: int
  warning_fired :: bool
  compact_fired :: bool
  compact_events :: "compact_event list"
  stderr_log :: "log_line list"
  status_file :: "string list"

definition write_status :: "string \<Rightarrow> run_state \<Rightarrow> run_state" where
  "write_status stage st = st\<lparr>status_file := status_file st @ [stage]\<rparr>"

definition print_err :: "log_line \<Rightarrow> run_state \<Rightarrow> run_state" where
  "print_err l st = st\<lparr>stderr_log := stderr_log st @ [l]\<rparr>"

definition on_token_warning :: "run_state \<Rightarrow> run_state" where
  "on_token_warning st = write_status ''token_warning'' (print_err LogTokenWarning st)"

text \<open>\<^verbatim>\<open>int(x * 0.5)\<close>: the half, truncated towards zero (exact below \<open>2^53\<close>).\<close>

definition half_trunc :: "int \<Rightarrow> int" where
  "half_trunc x = (if 0 \<le> x then x div 2 else - ((- x) div 2))"

definition discount :: "TokenUsage \<Rightarrow> TokenUsage" where
  "discount t = t\<lparr>total_combined := half_trunc (total_combined t),
                  total_input := half_trunc (total_input t),
                  total_output := half_trunc (total_output t)\<rparr>"

text \<open>One pass of the loop over \<^verbatim>\<open>cmd_bases\<close>: the state and the results so far.\<close>

definition compact_one ::
  "config \<Rightarrow> compact_env \<Rightarrow> role \<Rightarrow> run_state \<times> compact_result list
     \<Rightarrow> run_state \<times> compact_result list" where
  "compact_one cfg env name acc =
     (let st = fst acc; results = snd acc; cli = cmd_kind cfg name in
      if cli = Unknown then acc
      else
        let out = status_output env (compact_attempts st) name;
            st1 = (if verbose cfg \<and> out \<noteq> [] then print_err (LogStatus name cli (take 500 out)) st
                   else st);
            success = compact_ok env (compact_attempts st) name;
            st2 = print_err (if success then LogCompactDone name cli else LogCompactFailed name cli) st1
        in (st2, results @ [\<lparr>r_name = name, r_cli_type = cli, r_success = success\<rparr>]))"

definition on_compact_needed :: "config \<Rightarrow> compact_env \<Rightarrow> run_state \<Rightarrow> run_state" where
  "on_compact_needed cfg env st =
     (if compact_attempts st \<ge> max_compact_attempts cfg
      then print_err (LogCompactLimit (max_compact_attempts cfg)) st
      else
        let st1 = st\<lparr>compact_attempts := compact_attempts st + 1\<rparr>;
            st2 = print_err (LogCompactStart (compact_attempts st1) (max_compact_attempts cfg)) st1;
            looped = foldl (\<lambda>acc name. compact_one cfg env name acc) (st2, [])
                       [Rewriter, Concertmaster, Performer];
            st3 = fst looped;
            results = snd looped;
            any_success = list_ex r_success results;
            st4 = (if any_success then st3\<lparr>tracker := discount (tracker st3)\<rparr> else st3)
        in st4\<lparr>compact_events := compact_events st4 @
                  [\<lparr>e_attempt = compact_attempts st4, e_results = results,
                    e_any_success = any_success,
                    e_usage_before = total_combined (tracker st4)\<rparr>]\<rparr>)"

definition on_warning_once :: "run_state \<Rightarrow> run_state" where
  "on_warning_once st =
     (if \<not> warning_fired st then on_token_warning (st\<lparr>warning_fired := True\<rparr>) else st)"

definition on_compact_once :: "config \<Rightarrow> compact_env \<Rightarrow> run_state \<Rightarrow> run_state" where
  "on_compact_once cfg env st =
     (if \<not> compact_fired st
      then (on_compact_needed cfg env (st\<lparr>compact_fired := True\<rparr>))\<lparr>compact_fired := False\<rparr>
      else st)"

definition check_thresholds :: "config \<Rightarrow> compact_env \<Rightarrow> run_state \<Rightarrow> run_state" where
  "check_thresholds cfg env st =
     (let ratio = usage_ratio (tracker st) in
      if ratio \<ge> compact_threshold (tracker st) then on_compact_once cfg env st
      else if ratio \<ge> warning_threshold (tracker st) then on_warning_once st
      else st)"

definition add_usage ::
  "config \<Rightarrow> compact_env \<Rightarrow> run_state \<Rightarrow> int \<times> int \<times> ustr \<Rightarrow> run_state" where
  "add_usage cfg env st call =
     (let input_tokens = fst call; output_tokens = fst (snd call); label = snd (snd call);
          t = tracker st;
          combined = input_tokens + output_tokens;
          t1 = t\<lparr>total_input := total_input t + input_tokens,
                  total_output := total_output t + output_tokens,
                  total_combined := total_combined t + combined,
                  call_count := call_count t + 1\<rparr>;
          t2 = t1\<lparr>history := history t1 @
                  [\<lparr>h_label = label, h_input = input_tokens, h_output = output_tokens,
                    h_combined = combined, h_cumulative = total_combined t1\<rparr>]\<rparr>
      in check_thresholds cfg env (st\<lparr>tracker := t2\<rparr>))"

text \<open>
  The ledger and the closure variables as \<^verbatim>\<open>run\<close> creates them, from the three settings
  of \<^verbatim>\<open>token_management\<close>.
\<close>

definition new_tracker :: "int \<Rightarrow> rat \<Rightarrow> rat \<Rightarrow> TokenUsage" where
  "new_tracker mx warn cmp =
     \<lparr>total_input = 0, total_output = 0, total_combined = 0, call_count = 0, history = [],
      warning_threshold = warn, compact_threshold = cmp, max_tokens = mx\<rparr>"

definition initial_state :: "TokenUsage \<Rightarrow> run_state" where
  "initial_state t =
     \<lparr>tracker = t, compact_attempts = 0, warning_fired = False, compact_fired = False,
      compact_events = [], stderr_log = [], status_file = []\<rparr>"


subsection \<open>The attempt budget\<close>



lemma compact_one_tracker:
  "tracker (fst (compact_one cfg env name acc)) = tracker (fst acc)"
  by (simp add: compact_one_def Let_def print_err_def)










text \<open>
  Examples: a configuration with a single attempt whose three commands are Claude
  commands, compact commands that always succeed, a ledger limited to 100 tokens, and
  the run state in which that ledger holds 100 input tokens and no output tokens.
\<close>

definition cfg1 :: config where
  "cfg1 = \<lparr>max_compact_attempts = 1, verbose = False, cmd_kind = (\<lambda>r. Claude)\<rparr>"

definition env1 :: compact_env where
  "env1 = \<lparr>compact_ok = (\<lambda>n r. True), status_output = (\<lambda>n r. [])\<rparr>"





subsection \<open>The discount after a successful compaction\<close>



lemma compact_loop_tracker:
  "tracker (fst (foldl (\<lambda>acc name. compact_one cfg env name acc) (st, rs)
      [Rewriter, Concertmaster, Performer])) = tracker st"
  by (simp add: compact_one_tracker)




subsection \<open>Stages written to the status file\<close>


definition run_stages :: "string list" where
  "run_stages = [''rewriter'', ''rewriter_done'', ''performer'', ''mix'', ''mix_done'',
                 ''done'', ''error'']"

text \<open>
  The states of the status file that a run can reach. \<^verbatim>\<open>run\<close> first writes
  \<^verbatim>\<open>initialized\<close>; afterwards it writes its own stages, and every external call records
  its usage in the ledger, from the main thread or from a worker. The order of these
  steps is left open, which covers every interleaving of the threads.
\<close>

inductive reachable :: "config \<Rightarrow> compact_env \<Rightarrow> run_state \<Rightarrow> bool"
  for cfg :: config and env :: compact_env where
  reach_init: "reachable cfg env (write_status ''initialized'' (initial_state t))"
| reach_stage: "reachable cfg env st \<Longrightarrow> s \<in> set run_stages \<Longrightarrow>
      reachable cfg env (write_status s st)"
| reach_usage: "reachable cfg env st \<Longrightarrow> reachable cfg env (add_usage cfg env st call)"










section \<open>Python strings and values\<close>

subsection \<open>Strings\<close>

text \<open>
  The code points for which \<^verbatim>\<open>str.isspace\<close> holds; \<^verbatim>\<open>str.strip\<close> and the class
  \<^verbatim>\<open>\s\<close> of \<^verbatim>\<open>re\<close> use the same set.
\<close>

definition is_space :: "nat \<Rightarrow> bool" where
  "is_space c \<longleftrightarrow>
     (9 \<le> c \<and> c \<le> 13) \<or> (28 \<le> c \<and> c \<le> 32) \<or> c = 133 \<or> c = 160 \<or> c = 5760 \<or>
     (8192 \<le> c \<and> c \<le> 8202) \<or> c = 8232 \<or> c = 8233 \<or> c = 8239 \<or> c = 8287 \<or> c = 12288"

definition lstrip :: "ustr \<Rightarrow> ustr" where
  "lstrip s = dropWhile is_space s"

definition rstrip :: "ustr \<Rightarrow> ustr" where
  "rstrip s = rev (dropWhile is_space (rev s))"

definition strip :: "ustr \<Rightarrow> ustr" where
  "strip s = rstrip (lstrip s)"

fun starts_with :: "ustr \<Rightarrow> ustr \<Rightarrow> bool" where
  "starts_with s [] = True"
| "starts_with [] (p # ps) = False"
| "starts_with (c # cs) (p # ps) = (c = p \<and> starts_with cs ps)"

text \<open>\<^verbatim>\<open>pat in s\<close> for strings: \<open>pat\<close> occurs in \<open>s\<close> as a contiguous piece.\<close>

fun contains :: "ustr \<Rightarrow> ustr \<Rightarrow> bool" where
  "contains [] pat = (pat = [])"
| "contains (c # cs) pat = (starts_with (c # cs) pat \<or> contains cs pat)"

text \<open>
  \<^verbatim>\<open>s.replace(old, new)\<close> for a non-empty \<open>old\<close>: every occurrence, left to right,
  without overlap. \<open>skip\<close> counts the code points of an occurrence still to be dropped.
\<close>

fun replace_from :: "nat \<Rightarrow> ustr \<Rightarrow> ustr \<Rightarrow> ustr \<Rightarrow> ustr" where
  "replace_from skip [] old new = []"
| "replace_from (Suc k) (c # cs) old new = replace_from k cs old new"
| "replace_from 0 (c # cs) old new =
     (if starts_with (c # cs) old then new @ replace_from (length old - 1) cs old new
      else c # replace_from 0 cs old new)"

definition replace :: "ustr \<Rightarrow> ustr \<Rightarrow> ustr \<Rightarrow> ustr" where
  "replace s old new = replace_from 0 s old new"

definition ascii_lower :: "nat \<Rightarrow> nat" where
  "ascii_lower c = (if 65 \<le> c \<and> c \<le> 90 then c + 32 else c)"

subsection \<open>Values read from YAML or JSON\<close>

text \<open>
  What \<^verbatim>\<open>yaml.safe_load\<close> and \<^verbatim>\<open>json.load\<close> return: \<open>POther\<close> stands for a float
  or a date (its truth value and a tag that tells two of them apart), and a mapping is an
  association list of which \<^verbatim>\<open>get\<close> reads the first entry of a key. Keys that are not
  strings are left out, since the source only ever looks up string keys. Binary and set
  values (\<^verbatim>\<open>!!binary\<close>, \<^verbatim>\<open>!!set\<close>) are outside the model.
\<close>

datatype pyval =
    PNone
  | PBool bool
  | PInt int
  | PStr ustr
  | PList "pyval list"
  | PDict "(ustr \<times> pyval) list"
  | POther bool nat

type_synonym pydict = "(ustr \<times> pyval) list"

datatype py_error = AttributeError | TypeError | TimeoutExpired | OSError

definition get :: "pydict \<Rightarrow> string \<Rightarrow> pyval" where
  "get d k = (case map_of d (u k) of None \<Rightarrow> PNone | Some v \<Rightarrow> v)"

fun truthy :: "pyval \<Rightarrow> bool" where
  "truthy PNone = False"
| "truthy (PBool b) = b"
| "truthy (PInt i) = (i \<noteq> 0)"
| "truthy (PStr s) = (s \<noteq> [])"
| "truthy (PList xs) = (xs \<noteq> [])"
| "truthy (PDict d) = (d \<noteq> [])"
| "truthy (POther b n) = b"

text \<open>\<^verbatim>\<open>a or b\<close>.\<close>

definition por :: "pyval \<Rightarrow> pyval \<Rightarrow> pyval" where
  "por a b = (if truthy a then a else b)"

subsection \<open>Built-ins of the platform\<close>

text \<open>
  The source calls functions of Python and PyYAML whose tables are not part of the
  repository. They are the fields of a \<open>platform\<close>, and every theorem holds for every
  platform:
  \<^item> \<open>str_other\<close>: \<^verbatim>\<open>str(v)\<close> for a value that is neither a string nor an integer, as its
    first code point and the rest (\<^verbatim>\<open>str\<close> of such a value is never empty);
  \<^item> \<open>lower_other\<close>: \<^verbatim>\<open>str.lower\<close> on a string with a code point beyond ASCII;
  \<^item> \<open>nd_other\<close>: the decimal digits beyond ASCII that \<^verbatim>\<open>\d\<close> matches;
  \<^item> \<open>extract_yaml\<close>: the function of that name, \<open>None\<close> when it raises;
  \<^item> \<open>token_counts\<close>: the input and output token numbers that \<^verbatim>\<open>run_external\<close> derives
    from a prompt and an output with \<^verbatim>\<open>estimate_tokens\<close> and \<^verbatim>\<open>parse_token_usage\<close>.
\<close>

record platform =
  str_other :: "pyval \<Rightarrow> nat \<times> ustr"
  lower_other :: "ustr \<Rightarrow> ustr"
  nd_other :: "nat \<Rightarrow> bool"
  extract_yaml :: "ustr \<Rightarrow> pydict option"
  token_counts :: "ustr \<Rightarrow> ustr \<Rightarrow> int \<times> int"

text \<open>\<^verbatim>\<open>str(n)\<close> for an integer: its decimal digits, after a minus sign if it is negative.\<close>

fun digits10 :: "nat \<Rightarrow> ustr" where
  "digits10 n = (if n < 10 then [48 + n] else digits10 (n div 10) @ [48 + n mod 10])"

declare digits10.simps [simp del]

definition int_str :: "int \<Rightarrow> ustr" where
  "int_str i = (if i < 0 then 45 # digits10 (nat (- i)) else digits10 (nat i))"

definition py_str :: "platform \<Rightarrow> pyval \<Rightarrow> ustr" where
  "py_str P v =
     (case v of
        PStr s \<Rightarrow> s
      | PInt i \<Rightarrow> int_str i
      | _ \<Rightarrow> fst (str_other P v) # snd (str_other P v))"

definition py_lower :: "platform \<Rightarrow> ustr \<Rightarrow> ustr" where
  "py_lower P s = (if list_all (\<lambda>c. c < 128) s then map ascii_lower s else lower_other P s)"

definition is_digit :: "platform \<Rightarrow> nat \<Rightarrow> bool" where
  "is_digit P c \<longleftrightarrow> (48 \<le> c \<and> c \<le> 57) \<or> (128 \<le> c \<and> \<not> is_space c \<and> nd_other P c)"

text \<open>The receiver of a string method: anything but a string raises AttributeError.\<close>

definition as_str :: "pyval \<Rightarrow> py_error + ustr" where
  "as_str v = (case v of PStr s \<Rightarrow> Inr s | _ \<Rightarrow> Inl AttributeError)"

text \<open>A platform for evaluating examples: ASCII only, an empty YAML parser.\<close>

definition ascii_platform :: platform where
  "ascii_platform =
     \<lparr>str_other = (\<lambda>v. (63, [])), lower_other = (\<lambda>s. s), nd_other = (\<lambda>c. False),
      extract_yaml = (\<lambda>s. None), token_counts = (\<lambda>p out. (0, 0))\<rparr>"

section \<open>Pending confirmations\<close>

subsection \<open>The reply synthesized from a human decision\<close>

text \<open>The Japanese sentences of \<^verbatim>\<open>build_reply_from_pending\<close>, piece by piece.\<close>

definition txt_question_open :: ustr where
  "txt_question_open = [12518, 12540, 12470, 12540, 12408, 12398, 36074, 21839, 12300]"

definition txt_choice_mid :: ustr where
  "txt_choice_mid = [12301, 12395, 23550, 12377, 12427, 36984, 25246, 58, 32]"

definition txt_choice_end :: ustr where
  "txt_choice_end = [12290, 12371, 12398, 36984, 25246, 12391, 36914, 12417, 12390, 12367,
     12384, 12373, 12356, 12290]"

definition txt_choice_plain :: ustr where
  "txt_choice_plain = [12518, 12540, 12470, 12540, 36984, 25246, 58, 32]"

definition txt_answer_mid :: ustr where
  "txt_answer_mid = [12301, 12395, 23550, 12377, 12427, 22238, 31572, 58, 32]"

definition txt_free_end :: ustr where
  "txt_free_end = [12290, 12371, 12398, 22238, 31572, 12395, 22522, 12389, 12356, 12390,
     36914, 12417, 12390, 12367, 12384, 12373, 12356, 12290]"

definition txt_answer_plain :: ustr where
  "txt_answer_plain = [12518, 12540, 12470, 12540, 22238, 31572, 58, 32]"

definition txt_ok_tail :: ustr where
  "txt_ok_tail = [79, 75, 65288, 25215, 35469, 65289, 12290, 25552, 26696, 36890, 12426,
     36914, 12417, 12390, 12367, 12384, 12373, 12356, 12290]"

definition txt_ok_plain_tail :: ustr where
  "txt_ok_plain_tail = [79, 75, 12290, 25552, 26696, 36890, 12426, 36914, 12417, 12390,
     12367, 12384, 12373, 12356, 12290]"

definition txt_ng_tail :: ustr where
  "txt_ng_tail = [78, 71, 65288, 21364, 19979, 65289, 12290, 20462, 27491, 26696, 12434,
     25552, 31034, 12375, 12390, 12367, 12384, 12373, 12356, 12290]"

definition txt_ng_plain_tail :: ustr where
  "txt_ng_plain_tail = [78, 71, 12290, 20462, 27491, 26696, 12434, 25552, 31034, 12375,
     12390, 12367, 12384, 12373, 12356, 12290]"

text \<open>
  The seven words that count as approval; the last two are the Japanese words for
  "approved" (U+627F U+8A8D) and "yes" (U+306F U+3044).
\<close>

definition approval_words :: "ustr list" where
  "approval_words =
     [u ''ok'', u ''yes'', u ''y'', u ''true'', u ''1'', [25215, 35469], [12399, 12356]]"

definition build_reply_from_pending :: "platform \<Rightarrow> pydict \<Rightarrow> py_error + pyval" where
  "build_reply_from_pending P pending =
     (case as_str (por (get pending ''type'') (PStr (u ''ok_ng''))) of
        Inl e \<Rightarrow> Inl e
      | Inr raw_type \<Rightarrow>
          let pending_type = py_lower P (strip raw_type);
              question = por (get pending ''question'') (PStr [])
          in
          if pending_type = u ''choice'' then
            let choice = por (por (get pending ''user_choice'') (get pending ''user_reply''))
                           (PStr []);
                template = por (get pending ''choice_reply_template'') (PStr [])
            in
            if truthy template then
              (case as_str template of
                 Inl e \<Rightarrow> Inl e
               | Inr t \<Rightarrow> Inr (PStr (replace t (u ''{choice}'') (py_str P choice))))
            else if truthy question then
              Inr (PStr (txt_question_open @ py_str P question @ txt_choice_mid @
                         py_str P choice @ txt_choice_end))
            else Inr (PStr (txt_choice_plain @ py_str P choice @ txt_choice_end))
          else if pending_type = u ''free_text'' then
            let user_text = por (get pending ''user_reply'') (PStr []) in
            if truthy question then
              Inr (PStr (txt_question_open @ py_str P question @ txt_answer_mid @
                         py_str P user_text @ txt_free_end))
            else Inr (PStr (txt_answer_plain @ py_str P user_text))
          else
            let decision =
                  (if \<not> truthy (get pending ''user_reply'')
                   then (if truthy (get pending ''user_approved'') then PStr (u ''OK'')
                         else PStr (u ''NG''))
                   else get pending ''user_reply'');
                normalized = py_lower P (strip (py_str P decision))
            in
            if normalized \<in> set approval_words then
              (if truthy (get pending ''ok_reply'') then Inr (get pending ''ok_reply'')
               else if truthy question then
                 Inr (PStr (txt_question_open @ py_str P question @ txt_answer_mid @ txt_ok_tail))
               else Inr (PStr (txt_answer_plain @ txt_ok_plain_tail)))
            else
              (if truthy (get pending ''ng_reply'') then Inr (get pending ''ng_reply'')
               else if truthy question then
                 Inr (PStr (txt_question_open @ py_str P question @ txt_answer_mid @ txt_ng_tail))
               else Inr (PStr (txt_answer_plain @ txt_ng_plain_tail))))"

text \<open>
  The same decision in the words of the specification: the kind of a pending
  confirmation, the text the decision is read from, and the two replies.
\<close>

definition pending_kind :: "platform \<Rightarrow> pydict \<Rightarrow> py_error + ustr" where
  "pending_kind P pending =
     (case as_str (por (get pending ''type'') (PStr (u ''ok_ng''))) of
        Inl e \<Rightarrow> Inl e
      | Inr raw_type \<Rightarrow> Inr (py_lower P (strip raw_type)))"

definition decision_text :: "platform \<Rightarrow> pydict \<Rightarrow> ustr" where
  "decision_text P pending =
     (if truthy (get pending ''user_reply'') then py_str P (get pending ''user_reply'')
      else if truthy (get pending ''user_approved'') then u ''OK'' else u ''NG'')"

definition is_approval :: "platform \<Rightarrow> pydict \<Rightarrow> bool" where
  "is_approval P pending \<longleftrightarrow>
     py_lower P (strip (decision_text P pending)) \<in> set approval_words"

definition approval_reply :: "platform \<Rightarrow> pydict \<Rightarrow> pyval" where
  "approval_reply P pending =
     (if truthy (get pending ''ok_reply'') then get pending ''ok_reply''
      else if truthy (get pending ''question'') then
        PStr (txt_question_open @ py_str P (get pending ''question'') @ txt_answer_mid @
              txt_ok_tail)
      else PStr (txt_answer_plain @ txt_ok_plain_tail))"

definition rejection_reply :: "platform \<Rightarrow> pydict \<Rightarrow> pyval" where
  "rejection_reply P pending =
     (if truthy (get pending ''ng_reply'') then get pending ''ng_reply''
      else if truthy (get pending ''question'') then
        PStr (txt_question_open @ py_str P (get pending ''question'') @ txt_answer_mid @
              txt_ng_tail)
      else PStr (txt_answer_plain @ txt_ng_plain_tail))"

lemma u_Nil: "u [] = []" and u_Cons: "u (c # cs) = of_char c # u cs"
  by (simp_all add: u_def)

lemma approval_flag:
  "\<not> truthy (get p ''user_reply'') \<Longrightarrow> is_approval P p = truthy (get p ''user_approved'')"
  by (simp add: is_approval_def decision_text_def py_lower_def strip_def lstrip_def
        rstrip_def is_space_def ascii_lower_def approval_words_def u_Nil u_Cons)

lemma por_str_empty: "py_str P (por v (PStr [])) = (if truthy v then py_str P v else [])"
  by (simp add: por_def py_str_def)

lemma truthy_por_empty: "truthy (por v (PStr [])) = truthy v"
  by (simp add: por_def)

lemma ok_ng_branch:
  assumes "pending_kind P p = Inr k" and "k \<noteq> u ''choice''" and "k \<noteq> u ''free_text''"
  shows "build_reply_from_pending P p
           = Inr (if is_approval P p then approval_reply P p else rejection_reply P p)"
proof -
  obtain raw where raw: "as_str (por (get p ''type'') (PStr (u ''ok_ng''))) = Inr raw"
    and k: "k = py_lower P (strip raw)"
    using assms(1) by (auto simp add: pending_kind_def split: sum.splits)
  have dec: "py_str P (if \<not> truthy (get p ''user_reply'')
                   then (if truthy (get p ''user_approved'') then PStr (u ''OK'')
                         else PStr (u ''NG''))
                   else get p ''user_reply'') = decision_text P p"
    by (simp add: decision_text_def py_str_def)
  show ?thesis
    unfolding build_reply_from_pending_def raw sum.case Let_def dec
    using assms(2,3) unfolding k
    by (simp add: is_approval_def approval_reply_def rejection_reply_def
        por_str_empty truthy_por_empty)
qed

text \<open>An example: a binary confirmation that the user answers with \<^verbatim>\<open>Yes\<close> between blanks.\<close>

definition pending_yes :: pydict where
  "pending_yes = [(u ''type'', PStr (u ''ok_ng'')), (u ''question'', PStr (u ''Deploy?'')),
                  (u ''user_reply'', PStr (u '' Yes '')), (u ''user_approved'', PBool False)]"

text \<open>
  Claim C10, amended. For a pending confirmation of the binary-approval kind (its type,
  stripped and lower-cased, is neither \<^verbatim>\<open>choice\<close> nor \<^verbatim>\<open>free_text\<close>), the reply is the
  approval reply exactly when the decision text, stripped and lower-cased, is one of the
  seven approval words, and the rejection reply otherwise. The decision text is the
  user's reply, or, when that is empty, OK or NG according to the approval flag, so that
  an empty reply is an approval exactly when the flag is set. The rejection reply is the
  configured \<^verbatim>\<open>ng_reply\<close> if there is one, and only else the sentence that reports the
  rejection and asks for a revised proposal; likewise the approval reply is the
  configured \<^verbatim>\<open>ok_reply\<close> if there is one.
\<close>

theorem ok_ng_decision:
  assumes "pending_kind P p = Inr k" and "k \<noteq> u ''choice''" and "k \<noteq> u ''free_text''"
  shows "build_reply_from_pending P p
           = Inr (if is_approval P p then approval_reply P p else rejection_reply P p) \<and>
         (\<not> truthy (get p ''user_reply'') \<longrightarrow>
            is_approval P p = truthy (get p ''user_approved''))"
  using ok_ng_branch [OF assms] approval_flag [of p P] by blast

lemma pending_yes_kind: "pending_kind ascii_platform pending_yes = Inr (u ''ok_ng'')"
  by (simp add: pending_kind_def pending_yes_def get_def as_str_def por_def py_lower_def
      strip_def lstrip_def rstrip_def is_space_def ascii_lower_def u_Nil u_Cons)

lemma pending_yes_approval: "is_approval ascii_platform pending_yes"
  by (simp add: is_approval_def decision_text_def pending_yes_def get_def py_str_def
      py_lower_def strip_def lstrip_def rstrip_def is_space_def ascii_lower_def
      approval_words_def u_Nil u_Cons)

lemma pending_yes_reply:
  "approval_reply ascii_platform pending_yes
     = PStr (txt_question_open @ u ''Deploy?'' @ txt_answer_mid @ txt_ok_tail)"
  by (simp add: approval_reply_def pending_yes_def get_def py_str_def u_Nil u_Cons)

theorem ok_ng_decision_witness:
  "pending_kind ascii_platform pending_yes = Inr (u ''ok_ng'') \<and>
   u ''ok_ng'' \<noteq> u ''choice'' \<and> u ''ok_ng'' \<noteq> u ''free_text'' \<and>
   build_reply_from_pending ascii_platform pending_yes
     = Inr (PStr (txt_question_open @ u ''Deploy?'' @ txt_answer_mid @ txt_ok_tail))"
proof -
  have a: "u ''ok_ng'' \<noteq> u ''choice''" and b: "u ''ok_ng'' \<noteq> u ''free_text''"
    by (simp_all add: u_Nil u_Cons)
  show ?thesis
    using ok_ng_decision [OF pending_yes_kind a b] pending_yes_kind a b
    by (simp add: pending_yes_approval pending_yes_reply)
qed

text \<open>
  A binary confirmation for which the agent configured a rejection reply, answered with
  \<^verbatim>\<open>no\<close>.
\<close>

definition pending_no :: pydict where
  "pending_no = [(u ''type'', PStr (u ''ok_ng'')), (u ''question'', PStr (u ''Deploy?'')),
                 (u ''ng_reply'', PStr (u ''Stop.'')), (u ''user_reply'', PStr (u ''no'')),
                 (u ''user_approved'', PBool False)]"

lemma pending_no_kind: "pending_kind ascii_platform pending_no = Inr (u ''ok_ng'')"
  by (simp add: pending_kind_def pending_no_def get_def as_str_def por_def py_lower_def
      strip_def lstrip_def rstrip_def is_space_def ascii_lower_def u_Nil u_Cons)

lemma pending_no_rejected: "\<not> is_approval ascii_platform pending_no"
  by (simp add: is_approval_def decision_text_def pending_no_def get_def py_str_def
      py_lower_def strip_def lstrip_def rstrip_def is_space_def ascii_lower_def
      approval_words_def u_Nil u_Cons)

lemma pending_no_reply: "rejection_reply ascii_platform pending_no = PStr (u ''Stop.'')"
  by (simp add: rejection_reply_def pending_no_def get_def u_Nil u_Cons)

text \<open>
  Claim C10 as stated fails: the reply \<^verbatim>\<open>no\<close> is not empty and none of the seven words,
  and what the function returns is the configured \<^verbatim>\<open>ng_reply\<close>, which is neither of the
  two sentences that ask for a revised proposal.
\<close>

theorem canned_rejection_reply:
  "pending_kind ascii_platform pending_no = Inr (u ''ok_ng'') \<and>
   build_reply_from_pending ascii_platform pending_no = Inr (PStr (u ''Stop.'')) \<and>
   u ''Stop.'' \<noteq> txt_question_open @ u ''Deploy?'' @ txt_answer_mid @ txt_ng_tail \<and>
   u ''Stop.'' \<noteq> txt_answer_plain @ txt_ng_plain_tail"
proof -
  have a: "u ''ok_ng'' \<noteq> u ''choice''" and b: "u ''ok_ng'' \<noteq> u ''free_text''"
    by (simp_all add: u_Nil u_Cons)
  have "build_reply_from_pending ascii_platform pending_no = Inr (PStr (u ''Stop.''))"
    using ok_ng_branch [OF pending_no_kind a b]
    by (simp add: pending_no_rejected pending_no_reply)
  then show ?thesis
    by (simp add: pending_no_kind txt_question_open_def txt_answer_plain_def u_Nil u_Cons)
qed

subsection \<open>Choices enumerated in a question\<close>

text \<open>
  \<^verbatim>\<open>extract_choices_from_question\<close> runs \<^verbatim>\<open>re.findall\<close> with three patterns:
  \<^verbatim>\<open>\((\d+)\)\s*([^(]+?)(?=\s*\(\d+\)|$)\<close>,
  \<^verbatim>\<open>(?:^|\s)(\d+)\.\s*([^0-9]+?)(?=\s*\d+\.|$)\<close> and
  \<^verbatim>\<open>(?:^|\s)(\d+)\)\s*([^0-9]+?)(?=\s*\d+\)|$)\<close>.
  Each piece of a pattern is a function on the text that is left; a match yields its two
  groups and the number of code points it consumed.
\<close>

text \<open>\<^verbatim>\<open>\d+\<close> before a character that is no digit: all the digits there are.\<close>

definition take_digits :: "platform \<Rightarrow> ustr \<Rightarrow> (ustr \<times> ustr) option" where
  "take_digits P s =
     (let ds = takeWhile (is_digit P) s
      in if ds = [] then None else Some (ds, dropWhile (is_digit P) s))"

text \<open>\<^verbatim>\<open>\((\d+)\)\<close>: the number and the rest.\<close>

definition paren_number :: "platform \<Rightarrow> ustr \<Rightarrow> (ustr \<times> ustr) option" where
  "paren_number P s =
     (case s of
        [] \<Rightarrow> None
      | c # r \<Rightarrow>
          if c \<noteq> 40 then None
          else (case take_digits P r of
                  None \<Rightarrow> None
                | Some (ds, r') \<Rightarrow>
                    (case r' of
                       [] \<Rightarrow> None
                     | d # r'' \<Rightarrow> if d = 41 then Some (ds, r'') else None)))"

text \<open>\<^verbatim>\<open>(\d+)\<close> and the separator (\<open>.\<close> or \<open>)\<close>): the number and the rest.\<close>

definition number_sep :: "platform \<Rightarrow> nat \<Rightarrow> ustr \<Rightarrow> (ustr \<times> ustr) option" where
  "number_sep P sep s =
     (case take_digits P s of
        None \<Rightarrow> None
      | Some (ds, r) \<Rightarrow>
          (case r of [] \<Rightarrow> None | d # r' \<Rightarrow> if d = sep then Some (ds, r') else None))"

text \<open>Whether \<^verbatim>\<open>\s*X\<close> matches at the start of the text, for a test \<open>X\<close>.\<close>

fun ws_then :: "(ustr \<Rightarrow> bool) \<Rightarrow> ustr \<Rightarrow> bool" where
  "ws_then f [] = f []"
| "ws_then f (c # cs) = (f (c # cs) \<or> (is_space c \<and> ws_then f cs))"

text \<open>\<^verbatim>\<open>$\<close> without MULTILINE: the end of the text, or the line feed that ends it.\<close>

definition at_end :: "ustr \<Rightarrow> bool" where
  "at_end s \<longleftrightarrow> s = [] \<or> s = [10]"

definition ahead_paren :: "platform \<Rightarrow> ustr \<Rightarrow> bool" where
  "ahead_paren P s \<longleftrightarrow> ws_then (\<lambda>t. paren_number P t \<noteq> None) s \<or> at_end s"

definition ahead_number :: "platform \<Rightarrow> nat \<Rightarrow> ustr \<Rightarrow> bool" where
  "ahead_number P sep s \<longleftrightarrow> ws_then (\<lambda>t. number_sep P sep t \<noteq> None) s \<or> at_end s"

text \<open>
  A lazy group \<^verbatim>\<open>([...]+?)\<close> before a lookahead: the shortest non-empty run of allowed
  code points after which the lookahead holds.
\<close>

fun lazy_until :: "(nat \<Rightarrow> bool) \<Rightarrow> (ustr \<Rightarrow> bool) \<Rightarrow> ustr \<Rightarrow> ustr option" where
  "lazy_until allowed ahead [] = None"
| "lazy_until allowed ahead (c # cs) =
     (if \<not> allowed c then None
      else if ahead cs then Some [c]
      else map_option ((#) c) (lazy_until allowed ahead cs))"

text \<open>
  A greedy \<^verbatim>\<open>\s*\<close> before the rest \<open>f\<close> of a pattern: as much white space as lets
  \<open>f\<close> match, given back one code point at a time. The result is the number of code points
  skipped and what \<open>f\<close> returned.
\<close>

fun after_ws :: "(ustr \<Rightarrow> 'a option) \<Rightarrow> ustr \<Rightarrow> (nat \<times> 'a) option" where
  "after_ws f [] = map_option (Pair 0) (f [])"
| "after_ws f (c # cs) =
     (if is_space c then
        (case after_ws f cs of
           Some (k, r) \<Rightarrow> Some (Suc k, r)
         | None \<Rightarrow> map_option (Pair 0) (f (c # cs)))
      else map_option (Pair 0) (f (c # cs)))"

definition match_paren :: "platform \<Rightarrow> ustr \<Rightarrow> (ustr \<times> ustr \<times> nat) option" where
  "match_paren P s =
     (case paren_number P s of
        None \<Rightarrow> None
      | Some (ds, r) \<Rightarrow>
          (case after_ws (lazy_until (\<lambda>c. c \<noteq> 40) (ahead_paren P)) r of
             None \<Rightarrow> None
           | Some (k, g) \<Rightarrow> Some (ds, g, length ds + 2 + k + length g)))"

definition match_number_body ::
  "platform \<Rightarrow> nat \<Rightarrow> ustr \<Rightarrow> (ustr \<times> ustr \<times> nat) option" where
  "match_number_body P sep s =
     (case number_sep P sep s of
        None \<Rightarrow> None
      | Some (ds, r) \<Rightarrow>
          (case after_ws (lazy_until (\<lambda>c. \<not> (48 \<le> c \<and> c \<le> 57)) (ahead_number P sep)) r of
             None \<Rightarrow> None
           | Some (k, g) \<Rightarrow> Some (ds, g, length ds + 1 + k + length g)))"

text \<open>
  \<^verbatim>\<open>(?:^|\s)\<close> and the body: at the start of the question the empty alternative is tried
  first, then (and anywhere else) one white-space code point.
\<close>

definition match_number ::
  "platform \<Rightarrow> nat \<Rightarrow> bool \<Rightarrow> ustr \<Rightarrow> (ustr \<times> ustr \<times> nat) option" where
  "match_number P sep at_start s =
     (case (if at_start then match_number_body P sep s else None) of
        Some m \<Rightarrow> Some m
      | None \<Rightarrow>
          (case s of
             [] \<Rightarrow> None
           | c # r \<Rightarrow>
               if is_space c
               then map_option (\<lambda>m. (fst m, fst (snd m), Suc (snd (snd m))))
                      (match_number_body P sep r)
               else None))"

text \<open>
  \<^verbatim>\<open>re.findall\<close>: the matches from left to right, without overlap. \<open>skip\<close> counts the code
  points of the last match still to be passed over, \<open>at_start\<close> tells the first position.
\<close>

fun findall_from ::
  "(bool \<Rightarrow> ustr \<Rightarrow> (ustr \<times> ustr \<times> nat) option) \<Rightarrow> bool \<Rightarrow> nat \<Rightarrow> ustr
     \<Rightarrow> (ustr \<times> ustr) list" where
  "findall_from m at_start skip [] = []"
| "findall_from m at_start (Suc k) (c # cs) = findall_from m False k cs"
| "findall_from m at_start 0 (c # cs) =
     (case m at_start (c # cs) of
        None \<Rightarrow> findall_from m False 0 cs
      | Some (num, text, n) \<Rightarrow> (num, text) # findall_from m False (n - 1) cs)"

definition findall :: "(bool \<Rightarrow> ustr \<Rightarrow> (ustr \<times> ustr \<times> nat) option) \<Rightarrow> ustr \<Rightarrow> (ustr \<times> ustr) list" where
  "findall m s = findall_from m True 0 s"

definition format_choice :: "ustr \<times> ustr \<Rightarrow> ustr" where
  "format_choice m = fst m @ u '': '' @ strip (snd m)"

definition extract_choices_from_question :: "platform \<Rightarrow> ustr \<Rightarrow> ustr list" where
  "extract_choices_from_question P question =
     (let m1 = findall (\<lambda>at_start. match_paren P) question in
      if length m1 \<ge> 2 then map format_choice m1
      else
        let m2 = findall (match_number P 46) question in
        if length m2 \<ge> 2 then map format_choice m2
        else
          let m3 = findall (match_number P 41) question in
          if length m3 \<ge> 2 then map format_choice m3 else [])"

subsection \<open>The pending payload of a \<^verbatim>\<open>needs_user_confirm\<close> decision\<close>

record confirm_payload =
  c_type :: ustr
  c_question :: ustr
  c_reason :: ustr
  c_options :: "ustr list"
  c_ok_reply :: ustr
  c_ng_reply :: ustr
  c_choice_reply_template :: ustr

text \<open>The default question: "the matter to confirm has not been set".\<close>

definition txt_question_unset :: ustr where
  "txt_question_unset = [30906, 35469, 20869, 23481, 12364, 26410, 35373, 23450, 12391, 12377]"

text \<open>\<^verbatim>\<open>action_data.get("confirm") or {}\<close>, on which \<^verbatim>\<open>get\<close> is then called.\<close>

definition confirm_of :: "pydict \<Rightarrow> py_error + pydict" where
  "confirm_of action_data =
     (case por (get action_data ''confirm'') (PDict []) of
        PDict d \<Rightarrow> Inr d
      | _ \<Rightarrow> Inl AttributeError)"

definition explicit_type :: "platform \<Rightarrow> pydict \<Rightarrow> pydict \<Rightarrow> py_error + ustr" where
  "explicit_type P confirm action_data =
     (case as_str (por (por (get confirm ''type'') (get action_data ''confirm_type'')) (PStr [])) of
        Inl e \<Rightarrow> Inl e
      | Inr t \<Rightarrow> Inr (py_lower P (strip t)))"

definition question_of :: "pydict \<Rightarrow> pydict \<Rightarrow> pyval" where
  "question_of confirm action_data =
     (let question = por (por (get confirm ''question'') (get action_data ''question'')) (PStr [])
      in if \<not> truthy question then PStr txt_question_unset else question)"

text \<open>
  The options the agent gave: a string counts as one option, a list gives its items, a
  mapping its keys, and any other true value cannot be iterated.
\<close>

definition explicit_options :: "platform \<Rightarrow> pydict \<Rightarrow> pydict \<Rightarrow> py_error + ustr list" where
  "explicit_options P confirm action_data =
     (let options = por (por (por (por (get confirm ''options'') (get confirm ''choices''))
                       (get action_data ''options'')) (get action_data ''choices'')) (PList [])
      in case (case options of
                 PStr s \<Rightarrow> Inr [PStr s]
               | PList xs \<Rightarrow> Inr xs
               | PDict d \<Rightarrow> Inr (map (\<lambda>kv. PStr (fst kv)) d)
               | _ \<Rightarrow> Inl TypeError) of
           Inl e \<Rightarrow> Inl e
         | Inr items \<Rightarrow> Inr (map (py_str P) (filter truthy items)))"

definition str_or_empty :: "platform \<Rightarrow> pyval \<Rightarrow> ustr" where
  "str_or_empty P v = (if truthy v then py_str P v else [])"

definition known_types :: "ustr list" where
  "known_types = [u ''ok_ng'', u ''choice'', u ''free_text'']"

definition normalize_confirm_payload :: "platform \<Rightarrow> pydict \<Rightarrow> py_error + confirm_payload" where
  "normalize_confirm_payload P action_data =
     (case confirm_of action_data of
        Inl e \<Rightarrow> Inl e
      | Inr confirm \<Rightarrow>
     (case explicit_type P confirm action_data of
        Inl e \<Rightarrow> Inl e
      | Inr confirm_type \<Rightarrow>
     (case explicit_options P confirm action_data of
        Inl e \<Rightarrow> Inl e
      | Inr options0 \<Rightarrow>
          let question = question_of confirm action_data;
              reason = por (por (get confirm ''reason'') (get action_data ''reason'')) (PStr []);
              extracted = extract_choices_from_question P (py_str P question);
              options = (if options0 = [] \<and> extracted \<noteq> [] then extracted else options0);
              confirm_type' =
                (if confirm_type \<notin> set known_types
                 then (if options \<noteq> [] then u ''choice'' else u ''ok_ng'')
                 else confirm_type);
              ok_reply = por (por (por (get confirm ''ok_reply'') (get action_data ''ok_reply''))
                           (get action_data ''reply'')) (PStr []);
              ng_reply = por (por (get confirm ''ng_reply'') (get action_data ''ng_reply''))
                           (PStr []);
              choice_template = por (por (get confirm ''choice_reply_template'')
                                  (get action_data ''choice_reply_template'')) (PStr [])
          in Inr \<lparr>c_type = confirm_type', c_question = py_str P question,
                  c_reason = str_or_empty P reason, c_options = options,
                  c_ok_reply = str_or_empty P ok_reply, c_ng_reply = str_or_empty P ng_reply,
                  c_choice_reply_template = str_or_empty P choice_template\<rparr>)))"








lemma is_digit_ascii: "c < 128 \<Longrightarrow> is_digit P c \<longleftrightarrow> 48 \<le> c \<and> c \<le> 57"
  by (auto simp add: is_digit_def)









section \<open>Invoking an external agent\<close>

text \<open>
  What \<^verbatim>\<open>subprocess.run\<close> did with the command: it completed (standard output, standard
  error, return code), it was killed because \<^verbatim>\<open>timeout_sec\<close> elapsed, or it could not be
  started. In the last two cases \<^verbatim>\<open>subprocess.run\<close> raises.
\<close>

datatype proc_outcome = Completed ustr ustr int | TimedOut | SpawnFailed

definition subprocess_run :: "proc_outcome \<Rightarrow> py_error + ustr \<times> ustr \<times> int" where
  "subprocess_run outcome =
     (case outcome of
        Completed out err rc \<Rightarrow> Inr (out, err, rc)
      | TimedOut \<Rightarrow> Inl TimeoutExpired
      | SpawnFailed \<Rightarrow> Inl OSError)"

record ext_result =
  x_stdout :: ustr
  x_stderr :: ustr
  x_returncode :: int
  x_used_stdin :: bool
  x_tokens_input :: int
  x_tokens_output :: int

text \<open>The message "the command is not set".\<close>

definition txt_cmd_unset :: ustr where
  "txt_cmd_unset = [12467, 12510, 12531, 12489, 12364, 26410, 35373, 23450, 12391, 12377, 12290]"

definition command_uses :: "ustr list \<Rightarrow> string \<Rightarrow> bool" where
  "command_uses cmd_tmpl placeholder =
     list_ex (\<lambda>part. contains part (u ''{'' @ u placeholder @ u ''}'')) cmd_tmpl"

text \<open>
  \<^verbatim>\<open>run_external\<close>. The files it writes and the formatted command line are left out: the
  command only reaches the subprocess, whose outcome is the last argument. The ledger is
  the one of the run (\<^verbatim>\<open>run\<close> always passes \<^verbatim>\<open>token_tracker\<close>). There is no handler
  around \<^verbatim>\<open>subprocess.run\<close>, so what it raises leaves the function.
\<close>

definition run_external ::
  "platform \<Rightarrow> config \<Rightarrow> compact_env \<Rightarrow> run_state \<Rightarrow> ustr list \<Rightarrow> ustr \<Rightarrow> ustr \<Rightarrow> bool
     \<Rightarrow> proc_outcome \<Rightarrow> py_error + run_state \<times> ext_result" where
  "run_external P cfg env st cmd_tmpl prompt label dry_run outcome =
     (if cmd_tmpl = [] then
        Inr (st, \<lparr>x_stdout = [], x_stderr = txt_cmd_unset, x_returncode = 1,
                  x_used_stdin = False, x_tokens_input = 0, x_tokens_output = 0\<rparr>)
      else
        let uses_prompt = command_uses cmd_tmpl ''prompt'';
            uses_prompt_file = command_uses cmd_tmpl ''prompt_file'';
            stdin_given = \<not> (uses_prompt \<or> uses_prompt_file)
        in
        if dry_run then
          Inr (st, \<lparr>x_stdout = [], x_stderr = [], x_returncode = 0,
                    x_used_stdin = stdin_given, x_tokens_input = 0, x_tokens_output = 0\<rparr>)
        else
          (case subprocess_run outcome of
             Inl e \<Rightarrow> Inl e
           | Inr (out, err, rc) \<Rightarrow>
               let tokens = token_counts P prompt out;
                   st' = add_usage cfg env st (fst tokens, snd tokens, label)
               in Inr (st', \<lparr>x_stdout = out, x_stderr = err, x_returncode = rc,
                            x_used_stdin = stdin_given, x_tokens_input = fst tokens,
                            x_tokens_output = snd tokens\<rparr>)))"

section \<open>The exchange state machine of one task\<close>

subsection \<open>The exchange record\<close>

datatype ex_status =
  WaitingForConcertmaster | WaitingForPerformer | WaitingForUser | StatusDone | StatusError

datatype msg_type = Prompt | Review | Response

record message =
  m_role :: role
  m_type :: msg_type
  m_content :: pyval

record exchange =
  ex_status :: ex_status
  ex_turn :: int
  ex_history :: "message list"
  ex_pending :: pydict

definition init_exchange :: exchange where
  "init_exchange =
     \<lparr>ex_status = WaitingForConcertmaster, ex_turn = 0, ex_history = [], ex_pending = []\<rparr>"

definition append_exchange_message :: "exchange \<Rightarrow> role \<Rightarrow> pyval \<Rightarrow> msg_type \<Rightarrow> exchange" where
  "append_exchange_message d r content ty =
     d\<lparr>ex_history := ex_history d @ [\<lparr>m_role = r, m_type = ty, m_content = content\<rparr>]\<rparr>"

definition get_last_message :: "exchange \<Rightarrow> role \<Rightarrow> pyval" where
  "get_last_message d r =
     (case filter (\<lambda>m. m_role m = r) (rev (ex_history d)) of
        [] \<Rightarrow> PNone
      | m # ms \<Rightarrow> m_content m)"

text \<open>\<^verbatim>\<open>d[k] = v\<close> on a mapping.\<close>

fun dict_set :: "pydict \<Rightarrow> ustr \<Rightarrow> pyval \<Rightarrow> pydict" where
  "dict_set [] k v = [(k, v)]"
| "dict_set ((k', v') # d) k v = (if k' = k then (k, v) # d else (k', v') # dict_set d k v)"

text \<open>
  The human decision, as \<^verbatim>\<open>update_exchange_reply\<close> of the dashboard writes it into the
  pending payload.
\<close>

definition update_exchange_reply :: "ustr \<Rightarrow> bool \<Rightarrow> ustr \<Rightarrow> exchange \<Rightarrow> exchange" where
  "update_exchange_reply reply approved choice d =
     (let p1 = dict_set (ex_pending d) (u ''user_reply'') (PStr reply);
          p2 = (if choice \<noteq> [] then dict_set p1 (u ''user_choice'') (PStr choice) else p1);
          p3 = dict_set p2 (u ''user_approved'') (PBool approved)
      in d\<lparr>ex_pending := p3\<rparr>)"

subsection \<open>The supervisor loop (\<^verbatim>\<open>concertmaster_worker\<close>)\<close>

text \<open>
  What a worker is started with. The prompt templates are outside the core and are
  arguments: the opening instruction, the review of an executor response, and the
  executor's prompt for a record.
\<close>

record worker_args =
  a_cmd :: "ustr list"
  a_max_turns :: int
  a_dry_run :: bool
  a_label_prefix :: ustr
  a_initial_prompt :: ustr
  a_review_prompt :: "pyval \<Rightarrow> ustr"
  a_performer_prompt :: "exchange \<Rightarrow> ustr"

text \<open>The state of a worker thread: the shared run state and record, and its own counter.\<close>

record worker_state =
  w_run :: run_state
  w_exchange :: exchange
  w_turn :: int

datatype loop_ctl = Continue | Break

text \<open>The reason given when the YAML of a decision cannot be parsed, and "please go on".\<close>

definition txt_yaml_failed :: ustr where
  "txt_yaml_failed = [89, 65, 77, 76, 35299, 26512, 12395, 22833, 25943, 12375, 12383, 12383,
     12417, 20840, 25991, 12434, 36820, 21364]"

definition txt_continue :: ustr where
  "txt_continue = [32154, 12369, 12390, 12367, 12384, 12373, 12356, 12290]"

definition parse_action_output :: "platform \<Rightarrow> ustr \<Rightarrow> pydict" where
  "parse_action_output P text =
     (case extract_yaml P text of
        Some d \<Rightarrow> d
      | None \<Rightarrow> [(u ''action'', PStr (u ''reply'')), (u ''reply'', PStr (strip text)),
                 (u ''reason'', PStr txt_yaml_failed)])"

text \<open>\<^verbatim>\<open>d.get(k, "")\<close>.\<close>

definition get_or_empty :: "pydict \<Rightarrow> string \<Rightarrow> pyval" where
  "get_or_empty d k = (case map_of d (u k) of None \<Rightarrow> PStr [] | Some v \<Rightarrow> v)"

definition apply_user :: "pyval \<Rightarrow> exchange \<Rightarrow> exchange" where
  "apply_user reply d =
     (append_exchange_message d Concertmaster reply Prompt)
       \<lparr>ex_status := WaitingForPerformer, ex_pending := [], ex_turn := ex_turn d + 1\<rparr>"

definition force_done :: "exchange \<Rightarrow> exchange" where
  "force_done d = d\<lparr>ex_status := StatusDone\<rparr>"

definition apply_done :: "pydict \<Rightarrow> exchange \<Rightarrow> exchange" where
  "apply_done action_data d =
     (append_exchange_message d Concertmaster (get_or_empty action_data ''reason'') Review)
       \<lparr>ex_status := StatusDone, ex_pending := []\<rparr>"

definition apply_user_wait :: "pydict \<Rightarrow> confirm_payload \<Rightarrow> exchange \<Rightarrow> exchange" where
  "apply_user_wait action_data confirm d =
     (append_exchange_message d Concertmaster (get_or_empty action_data ''reason'') Review)
       \<lparr>ex_status := WaitingForUser,
        ex_pending :=
          [(u ''type'', PStr (c_type confirm)),
           (u ''question'', PStr (c_question confirm)),
           (u ''reason'', PStr (c_reason confirm)),
           (u ''options'', PList (map PStr (c_options confirm))),
           (u ''ok_reply'', PStr (c_ok_reply confirm)),
           (u ''ng_reply'', PStr (c_ng_reply confirm)),
           (u ''choice_reply_template'', PStr (c_choice_reply_template confirm)),
           (u ''user_reply'', PStr []),
           (u ''user_choice'', PStr []),
           (u ''user_approved'', PBool False)]\<rparr>"

definition apply_reply :: "ustr \<Rightarrow> exchange \<Rightarrow> exchange" where
  "apply_reply reply d =
     (append_exchange_message d Concertmaster (PStr reply) Prompt)
       \<lparr>ex_status := WaitingForPerformer, ex_pending := [], ex_turn := ex_turn d + 1\<rparr>"

text \<open>
  One pass through the body of the \<^verbatim>\<open>while\<close> loop: the thread goes on, leaves the loop,
  or dies of an exception (\<^verbatim>\<open>try ... finally\<close> only stops the file watcher). Waiting for
  a change of the file is a pass that changes nothing.
\<close>

definition concertmaster_iteration ::
  "platform \<Rightarrow> config \<Rightarrow> compact_env \<Rightarrow> worker_args \<Rightarrow> proc_outcome \<Rightarrow> worker_state
     \<Rightarrow> py_error + loop_ctl \<times> worker_state" where
  "concertmaster_iteration P cfg env args outcome w =
     (let d = w_exchange w; status = ex_status d in
      if status = StatusDone \<or> status = StatusError then Inr (Break, w)
      else if status = WaitingForUser then
        (let pending = ex_pending d in
         if truthy (get pending ''user_reply'') \<or> truthy (get pending ''user_choice'') \<or>
            truthy (get pending ''user_approved'')
         then (case build_reply_from_pending P pending of
                 Inl e \<Rightarrow> Inl e
               | Inr reply \<Rightarrow> Inr (Continue, w\<lparr>w_exchange := apply_user reply d\<rparr>))
         else Inr (Continue, w))
      else if status \<noteq> WaitingForConcertmaster then Inr (Continue, w)
      else if w_turn w \<ge> a_max_turns args then
        Inr (Break, w\<lparr>w_exchange := force_done d\<rparr>)
      else
        let performer_output = get_last_message d Performer;
            prompt = (if truthy performer_output then a_review_prompt args performer_output
                      else a_initial_prompt args);
            label = a_label_prefix args @ u ''_'' @ py_str P (PInt (w_turn w))
        in
        case run_external P cfg env (w_run w) (a_cmd args) prompt label (a_dry_run args) outcome of
          Inl e \<Rightarrow> Inl e
        | Inr (st', result) \<Rightarrow>
            let w1 = w\<lparr>w_run := st'\<rparr>;
                action_data = parse_action_output P (strip (x_stdout result))
            in
            case as_str (por (get action_data ''action'') (PStr (u ''reply''))) of
              Inl e \<Rightarrow> Inl e
            | Inr raw_action \<Rightarrow>
            case as_str (por (get action_data ''reply'') (PStr [])) of
              Inl e \<Rightarrow> Inl e
            | Inr raw_reply \<Rightarrow>
                if strip raw_action = u ''done'' then
                  Inr (Break, w1\<lparr>w_exchange := apply_done action_data d\<rparr>)
                else if strip raw_action = u ''needs_user_confirm'' then
                  (case normalize_confirm_payload P action_data of
                     Inl e \<Rightarrow> Inl e
                   | Inr confirm \<Rightarrow>
                       Inr (Continue, w1\<lparr>w_exchange := apply_user_wait action_data confirm d\<rparr>))
                else
                  let reply = (if strip raw_reply = [] then txt_continue else strip raw_reply)
                  in Inr (Continue, w1\<lparr>w_exchange := apply_reply reply d,
                                        w_turn := w_turn w + 1\<rparr>))"

subsection \<open>The executor loop (\<^verbatim>\<open>performer_worker\<close>)\<close>

definition apply_output :: "ustr \<Rightarrow> exchange \<Rightarrow> exchange" where
  "apply_output output d =
     (append_exchange_message d Performer (PStr output) Response)
       \<lparr>ex_status := WaitingForConcertmaster\<rparr>"

definition performer_iteration ::
  "platform \<Rightarrow> config \<Rightarrow> compact_env \<Rightarrow> worker_args \<Rightarrow> proc_outcome \<Rightarrow> worker_state
     \<Rightarrow> py_error + loop_ctl \<times> worker_state" where
  "performer_iteration P cfg env args outcome w =
     (let d = w_exchange w; status = ex_status d in
      if status = StatusDone \<or> status = StatusError then Inr (Break, w)
      else if status \<noteq> WaitingForPerformer then Inr (Continue, w)
      else
        let prompt = a_performer_prompt args d;
            label = a_label_prefix args @ u ''_'' @ py_str P (PInt (w_turn w))
        in
        case run_external P cfg env (w_run w) (a_cmd args) prompt label (a_dry_run args) outcome of
          Inl e \<Rightarrow> Inl e
        | Inr (st', result) \<Rightarrow>
            Inr (Continue, w\<lparr>w_run := st', w_turn := w_turn w + 1,
                              w_exchange := apply_output (strip (x_stdout result)) d\<rparr>))"

subsection \<open>The pair of threads of one task\<close>

text \<open>
  The two threads and the dashboard act on the record one at a time (every update is
  made under the lock of the task). A thread that has left its loop or died takes no
  further step; \<open>p_raised\<close> keeps what killed a thread.
\<close>

record pair_state =
  p_run :: run_state
  p_exchange :: exchange
  p_cm_turn :: int
  p_pf_turn :: int
  p_cm_alive :: bool
  p_pf_alive :: bool
  p_raised :: "py_error list"

datatype event =
    SupervisorPass proc_outcome
  | ExecutorPass proc_outcome
  | UserDecision ustr bool ustr

definition start_pair :: "run_state \<Rightarrow> pair_state" where
  "start_pair st =
     \<lparr>p_run = st, p_exchange = init_exchange, p_cm_turn = 0, p_pf_turn = 0,
      p_cm_alive = True, p_pf_alive = True, p_raised = []\<rparr>"

definition pair_step ::
  "platform \<Rightarrow> config \<Rightarrow> compact_env \<Rightarrow> worker_args \<Rightarrow> worker_args \<Rightarrow> pair_state \<Rightarrow> event
     \<Rightarrow> pair_state" where
  "pair_step P cfg env cm_args pf_args ps ev =
     (case ev of
        SupervisorPass outcome \<Rightarrow>
          if \<not> p_cm_alive ps then ps
          else
            (case concertmaster_iteration P cfg env cm_args outcome
                    \<lparr>w_run = p_run ps, w_exchange = p_exchange ps, w_turn = p_cm_turn ps\<rparr> of
               Inl e \<Rightarrow> ps\<lparr>p_cm_alive := False, p_raised := p_raised ps @ [e]\<rparr>
             | Inr (ctl, w) \<Rightarrow>
                 ps\<lparr>p_run := w_run w, p_exchange := w_exchange w, p_cm_turn := w_turn w,
                    p_cm_alive := (ctl = Continue)\<rparr>)
      | ExecutorPass outcome \<Rightarrow>
          if \<not> p_pf_alive ps then ps
          else
            (case performer_iteration P cfg env pf_args outcome
                    \<lparr>w_run = p_run ps, w_exchange = p_exchange ps, w_turn = p_pf_turn ps\<rparr> of
               Inl e \<Rightarrow> ps\<lparr>p_pf_alive := False, p_raised := p_raised ps @ [e]\<rparr>
             | Inr (ctl, w) \<Rightarrow>
                 ps\<lparr>p_run := w_run w, p_exchange := w_exchange w, p_pf_turn := w_turn w,
                    p_pf_alive := (ctl = Continue)\<rparr>)
      | UserDecision reply approved choice \<Rightarrow>
          ps\<lparr>p_exchange := update_exchange_reply reply approved choice (p_exchange ps)\<rparr>)"

definition pair_run ::
  "platform \<Rightarrow> config \<Rightarrow> compact_env \<Rightarrow> worker_args \<Rightarrow> worker_args \<Rightarrow> pair_state \<Rightarrow> event list
     \<Rightarrow> pair_state" where
  "pair_run P cfg env cm_args pf_args ps evs = foldl (pair_step P cfg env cm_args pf_args) ps evs"

text \<open>A decision that asks for a plain confirmation.\<close>

definition envelope_confirm :: pydict where
  "envelope_confirm = [(u ''action'', PStr (u ''needs_user_confirm'')),
                       (u ''question'', PStr (u ''Proceed?''))]"

text \<open>An agent whose every answer parses as the same request for confirmation.\<close>

definition confirming_platform :: platform where
  "confirming_platform = ascii_platform\<lparr>extract_yaml := (\<lambda>s. Some envelope_confirm)\<rparr>"

text \<open>A worker with a cap of one turn, and the run state at the start of a run.\<close>

definition args1 :: worker_args where
  "args1 = \<lparr>a_cmd = [u ''agent''], a_max_turns = 1, a_dry_run = False, a_label_prefix = u ''w'',
            a_initial_prompt = u ''start'', a_review_prompt = (\<lambda>v. u ''review''),
            a_performer_prompt = (\<lambda>d. u ''work'')\<rparr>"

definition st0 :: run_state where
  "st0 = initial_state (new_tracker 200000 (3/4) (17/20))"

lemma run_external_timeout:
  "cmd \<noteq> [] \<Longrightarrow> run_external P cfg env st cmd prompt label False TimedOut = Inl TimeoutExpired"
  by (simp add: run_external_def subprocess_run_def Let_def)

lemma supervisor_timeout:
  assumes "a_cmd args \<noteq> []" and "\<not> a_dry_run args"
    and "ex_status (w_exchange w) = WaitingForConcertmaster" and "w_turn w < a_max_turns args"
  shows "concertmaster_iteration P cfg env args TimedOut w = Inl TimeoutExpired"
  using assms by (simp add: concertmaster_iteration_def Let_def run_external_timeout)

lemma executor_waits:
  "ex_status (w_exchange w) = WaitingForConcertmaster \<Longrightarrow>
     performer_iteration P cfg env args outcome w = Inr (Continue, w)"
  by (simp add: performer_iteration_def Let_def)

definition stuck :: "pair_state \<Rightarrow> message list \<Rightarrow> bool" where
  "stuck ps h \<longleftrightarrow> \<not> p_cm_alive ps \<and> ex_status (p_exchange ps) = WaitingForConcertmaster \<and>
     ex_history (p_exchange ps) = h"

lemma stuck_step: "stuck ps h \<Longrightarrow> stuck (pair_step P cfg env cm_args pf_args ps ev) h"
  by (cases ev)
     (auto simp add: stuck_def pair_step_def executor_waits update_exchange_reply_def Let_def)

lemma stuck_run: "stuck ps h \<Longrightarrow> stuck (pair_run P cfg env cm_args pf_args ps evs) h"
  unfolding pair_run_def
  by (induction evs arbitrary: ps) (simp_all add: stuck_step)

lemma timeout_kills_supervisor:
  assumes "p_cm_alive ps" and "a_cmd cm_args \<noteq> []" and "\<not> a_dry_run cm_args"
    and "ex_status (p_exchange ps) = WaitingForConcertmaster"
    and "p_cm_turn ps < a_max_turns cm_args"
  shows "pair_step P cfg env cm_args pf_args ps (SupervisorPass TimedOut)
           = ps\<lparr>p_cm_alive := False, p_raised := p_raised ps @ [TimeoutExpired]\<rparr>"
  using assms by (simp add: pair_step_def supervisor_timeout)

text \<open>
  Claim C4 (the code departs from it). When the supervisor's call of the external agent
  is killed for exceeding its timeout, \<^verbatim>\<open>run_external\<close> does not return a failed result:
  TimeoutExpired leaves it and kills the supervisor thread. No entry is added to the
  history, and whatever the executor, the dashboard or further polls do afterwards, the
  record stays at \<^verbatim>\<open>waiting_for_concertmaster\<close>.
\<close>

theorem timeout_escapes_worker:
  assumes "p_cm_alive ps" and "a_cmd cm_args \<noteq> []" and "\<not> a_dry_run cm_args"
    and "ex_status (p_exchange ps) = WaitingForConcertmaster"
    and "p_cm_turn ps < a_max_turns cm_args"
  shows "run_external P cfg env (p_run ps) (a_cmd cm_args) prompt label (a_dry_run cm_args)
           TimedOut = Inl TimeoutExpired \<and>
         p_raised (pair_step P cfg env cm_args pf_args ps (SupervisorPass TimedOut))
           = p_raised ps @ [TimeoutExpired] \<and>
         \<not> p_cm_alive (pair_run P cfg env cm_args pf_args ps (SupervisorPass TimedOut # evs)) \<and>
         ex_status (p_exchange
           (pair_run P cfg env cm_args pf_args ps (SupervisorPass TimedOut # evs)))
           = WaitingForConcertmaster \<and>
         ex_history (p_exchange
           (pair_run P cfg env cm_args pf_args ps (SupervisorPass TimedOut # evs)))
           = ex_history (p_exchange ps)"
proof -
  let ?ps1 = "pair_step P cfg env cm_args pf_args ps (SupervisorPass TimedOut)"
  have step: "?ps1 = ps\<lparr>p_cm_alive := False, p_raised := p_raised ps @ [TimeoutExpired]\<rparr>"
    by (rule timeout_kills_supervisor [OF assms])
  have "stuck ?ps1 (ex_history (p_exchange ps))"
    unfolding step using assms(4) by (simp add: stuck_def)
  then have "stuck (pair_run P cfg env cm_args pf_args ?ps1 evs) (ex_history (p_exchange ps))"
    by (rule stuck_run)
  moreover have "pair_run P cfg env cm_args pf_args ps (SupervisorPass TimedOut # evs)
      = pair_run P cfg env cm_args pf_args ?ps1 evs"
    by (simp add: pair_run_def)
  ultimately show ?thesis
    using assms(2,3) by (simp add: stuck_def step run_external_timeout)
qed

theorem timeout_escapes_worker_witness:
  "p_cm_alive (start_pair st0) \<and> a_cmd args1 \<noteq> [] \<and> \<not> a_dry_run args1 \<and>
   ex_status (p_exchange (start_pair st0)) = WaitingForConcertmaster \<and>
   p_cm_turn (start_pair st0) < a_max_turns args1 \<and>
   run_external ascii_platform cfg1 env1 (p_run (start_pair st0)) (a_cmd args1) (u ''start'')
     (u ''w_0'') (a_dry_run args1) TimedOut = Inl TimeoutExpired \<and>
   ex_status (p_exchange (pair_run ascii_platform cfg1 env1 args1 args1 (start_pair st0)
     [SupervisorPass TimedOut, ExecutorPass (Completed [] [] 0), SupervisorPass (Completed [] [] 0)]))
     = WaitingForConcertmaster \<and>
   ex_history (p_exchange (pair_run ascii_platform cfg1 env1 args1 args1 (start_pair st0)
     [SupervisorPass TimedOut, ExecutorPass (Completed [] [] 0), SupervisorPass (Completed [] [] 0)]))
     = []"
proof -
  have h: "p_cm_alive (start_pair st0)" "a_cmd args1 \<noteq> []" "\<not> a_dry_run args1"
    "ex_status (p_exchange (start_pair st0)) = WaitingForConcertmaster"
    "p_cm_turn (start_pair st0) < a_max_turns args1"
    by (simp_all add: start_pair_def args1_def init_exchange_def)
  have e: "ex_history (p_exchange (start_pair st0)) = []"
    by (simp add: start_pair_def init_exchange_def)
  note t = timeout_escapes_worker [OF h, of ascii_platform cfg1 env1 "u ''start''" "u ''w_0''"
      args1 "[ExecutorPass (Completed [] [] 0), SupervisorPass (Completed [] [] 0)]"]
  show ?thesis
    using t h unfolding e by blast
qed

text \<open>The payload of that decision, and the reply to its approval.\<close>

definition payload_proceed :: confirm_payload where
  "payload_proceed =
     \<lparr>c_type = u ''ok_ng'', c_question = u ''Proceed?'', c_reason = [], c_options = [],
      c_ok_reply = [], c_ng_reply = [], c_choice_reply_template = []\<rparr>"

definition reply_approved :: pyval where
  "reply_approved = PStr (txt_question_open @ u ''Proceed?'' @ txt_answer_mid @ txt_ok_tail)"

lemma envelope_confirm_get:
  "get envelope_confirm ''action'' = PStr (u ''needs_user_confirm'')"
  "get envelope_confirm ''reply'' = PNone"
  "get_or_empty envelope_confirm ''reason'' = PStr []"
  by (simp_all add: envelope_confirm_def get_def get_or_empty_def u_Nil u_Cons)

lemma payload_proceed_eq:
  "normalize_confirm_payload confirming_platform envelope_confirm = Inr payload_proceed"
  by (simp add: normalize_confirm_payload_def confirm_of_def explicit_type_def
      explicit_options_def question_of_def envelope_confirm_def get_def por_def as_str_def
      py_lower_def strip_def lstrip_def rstrip_def known_types_def u_Nil u_Cons Let_def
      py_str_def str_or_empty_def extract_choices_from_question_def findall_def
      match_paren_def paren_number_def match_number_def match_number_body_def number_sep_def
      take_digits_def is_digit_ascii is_space_def payload_proceed_def)

lemma strip_action: "strip (u ''needs_user_confirm'') = u ''needs_user_confirm''"
  by (simp add: strip_def lstrip_def rstrip_def is_space_def u_Nil u_Cons)

lemma envelope_confirm_fields:
  "as_str (por (get envelope_confirm ''action'') (PStr (u ''reply''))) = Inr (u ''needs_user_confirm'')"
  "as_str (por (get envelope_confirm ''reply'') (PStr [])) = Inr []"
  by (simp_all add: envelope_confirm_get por_def as_str_def u_Nil u_Cons)

lemma supervisor_asks:
  assumes "ex_status (w_exchange w) = WaitingForConcertmaster" and "w_turn w < 1"
  shows "case concertmaster_iteration confirming_platform cfg env args1 (Completed out err rc) w of
           Inl e \<Rightarrow> False
         | Inr (ctl, w') \<Rightarrow> ctl = Continue \<and> w_turn w' = w_turn w \<and>
             w_exchange w' = apply_user_wait envelope_confirm payload_proceed (w_exchange w)"
proof -
  have p: "parse_action_output confirming_platform s = envelope_confirm" for s
    by (simp add: parse_action_output_def confirming_platform_def)
  have ne: "u ''needs_user_confirm'' \<noteq> u ''done''"
    by (simp add: u_Nil u_Cons)
  show ?thesis
    using assms
    by (simp add: concertmaster_iteration_def Let_def run_external_def subprocess_run_def
        args1_def p envelope_confirm_fields strip_action ne payload_proceed_eq)
qed

text \<open>
  The pending payload as the supervisor stores it, and the same after the user has
  approved.
\<close>

definition pending_asked :: pydict where
  "pending_asked =
     [(u ''type'', PStr (u ''ok_ng'')), (u ''question'', PStr (u ''Proceed?'')),
      (u ''reason'', PStr []), (u ''options'', PList []), (u ''ok_reply'', PStr []),
      (u ''ng_reply'', PStr []), (u ''choice_reply_template'', PStr []),
      (u ''user_reply'', PStr []), (u ''user_choice'', PStr []),
      (u ''user_approved'', PBool False)]"

definition pending_approved :: pydict where
  "pending_approved =
     [(u ''type'', PStr (u ''ok_ng'')), (u ''question'', PStr (u ''Proceed?'')),
      (u ''reason'', PStr []), (u ''options'', PList []), (u ''ok_reply'', PStr []),
      (u ''ng_reply'', PStr []), (u ''choice_reply_template'', PStr []),
      (u ''user_reply'', PStr []), (u ''user_choice'', PStr []),
      (u ''user_approved'', PBool True)]"

lemma asked_pending:
  "ex_pending (apply_user_wait envelope_confirm payload_proceed d) = pending_asked"
  by (simp add: apply_user_wait_def append_exchange_message_def payload_proceed_def
      pending_asked_def)

lemma asked_other:
  "ex_status (apply_user_wait envelope_confirm payload_proceed d) = WaitingForUser"
  "ex_turn (apply_user_wait envelope_confirm payload_proceed d) = ex_turn d"
  by (simp_all add: apply_user_wait_def append_exchange_message_def)

lemma user_approves:
  "ex_pending d = pending_asked \<Longrightarrow>
     update_exchange_reply [] True [] d = d\<lparr>ex_pending := pending_approved\<rparr>"
  by (simp add: update_exchange_reply_def pending_asked_def pending_approved_def Let_def
      u_Nil u_Cons)

lemma pending_approved_get:
  "get pending_approved ''type'' = PStr (u ''ok_ng'')"
  "get pending_approved ''question'' = PStr (u ''Proceed?'')"
  "get pending_approved ''user_reply'' = PStr []"
  "get pending_approved ''user_choice'' = PStr []"
  "get pending_approved ''user_approved'' = PBool True"
  "get pending_approved ''ok_reply'' = PStr []"
  by (simp_all add: pending_approved_def get_def u_Nil u_Cons)

lemma approved_kind: "pending_kind confirming_platform pending_approved = Inr (u ''ok_ng'')"
  by (simp add: pending_kind_def pending_approved_get por_def as_str_def py_lower_def
      strip_def lstrip_def rstrip_def is_space_def ascii_lower_def u_Nil u_Cons)

lemma approved_reply:
  "build_reply_from_pending confirming_platform pending_approved = Inr reply_approved"
proof -
  have a: "u ''ok_ng'' \<noteq> u ''choice''" and b: "u ''ok_ng'' \<noteq> u ''free_text''"
    by (simp_all add: u_Nil u_Cons)
  have "is_approval confirming_platform pending_approved"
    by (simp add: approval_flag pending_approved_get)
  moreover have "approval_reply confirming_platform pending_approved = reply_approved"
    by (simp add: approval_reply_def pending_approved_get reply_approved_def py_str_def
        u_Nil u_Cons)
  ultimately show ?thesis
    using ok_ng_branch [OF approved_kind a b] by simp
qed

lemma supervisor_resolves:
  assumes "ex_status (w_exchange w) = WaitingForUser"
    and "ex_pending (w_exchange w) = pending_approved"
  shows "concertmaster_iteration confirming_platform cfg env args outcome w
           = Inr (Continue, w\<lparr>w_exchange := apply_user reply_approved (w_exchange w)\<rparr>)"
  using assms
  by (simp add: concertmaster_iteration_def Let_def pending_approved_get approved_reply)

lemma executor_answers:
  assumes "ex_status (w_exchange w) = WaitingForPerformer"
  shows "case performer_iteration confirming_platform cfg env args1 (Completed out err rc) w of
           Inl e \<Rightarrow> False
         | Inr (ctl, w') \<Rightarrow> ctl = Continue \<and>
             w_exchange w' = apply_output (strip out) (w_exchange w)"
  using assms
  by (simp add: performer_iteration_def Let_def run_external_def subprocess_run_def args1_def)

text \<open>What the rest of a pair state is once the ledger is set aside.\<close>

definition view :: "pair_state \<Rightarrow> exchange \<times> int \<times> bool \<times> bool \<times> py_error list" where
  "view ps = (p_exchange ps, p_cm_turn ps, p_cm_alive ps, p_pf_alive ps, p_raised ps)"

lemma pair_supervisor_asks:
  assumes "view ps = (d, t, True, pf, errs)" and "ex_status d = WaitingForConcertmaster"
    and "t < 1"
  shows "view (pair_step confirming_platform cfg env args1 pf_args ps
                 (SupervisorPass (Completed out err rc)))
           = (apply_user_wait envelope_confirm payload_proceed d, t, True, pf, errs)"
  using assms
    supervisor_asks [where w = "\<lparr>w_run = p_run ps, w_exchange = p_exchange ps, w_turn = p_cm_turn ps\<rparr>"
      and cfg = cfg and env = env and out = out and err = err and rc = rc]
  by (auto simp add: view_def pair_step_def split: sum.splits)

lemma pair_user_approves:
  assumes "view ps = (d, t, cm, pf, errs)" and "ex_pending d = pending_asked"
  shows "view (pair_step P cfg env cm_args pf_args ps (UserDecision [] True []))
           = (d\<lparr>ex_pending := pending_approved\<rparr>, t, cm, pf, errs)"
  using assms by (auto simp add: view_def pair_step_def user_approves)

lemma pair_supervisor_resolves:
  assumes "view ps = (d, t, True, pf, errs)" and "ex_status d = WaitingForUser"
    and "ex_pending d = pending_approved"
  shows "view (pair_step confirming_platform cfg env cm_args pf_args ps (SupervisorPass outcome))
           = (apply_user reply_approved d, t, True, pf, errs)"
  using assms
    supervisor_resolves [where w = "\<lparr>w_run = p_run ps, w_exchange = p_exchange ps, w_turn = p_cm_turn ps\<rparr>"
      and cfg = cfg and env = env and args = cm_args and outcome = outcome]
  by (auto simp add: view_def pair_step_def)

lemma pair_executor_answers:
  assumes "view ps = (d, t, cm, True, errs)" and "ex_status d = WaitingForPerformer"
  shows "view (pair_step confirming_platform cfg env cm_args args1 ps
                 (ExecutorPass (Completed out err rc)))
           = (apply_output (strip out) d, t, cm, True, errs)"
  using assms
    executor_answers [where w = "\<lparr>w_run = p_run ps, w_exchange = p_exchange ps, w_turn = p_pf_turn ps\<rparr>"
      and cfg = cfg and env = env and out = out and err = err and rc = rc]
  by (auto simp add: view_def pair_step_def split: sum.splits)

text \<open>
  One round: the supervisor asks for a confirmation, the user approves, the supervisor
  turns the approval into an instruction, the executor answers.
\<close>

definition confirm_round :: "event list" where
  "confirm_round =
     [SupervisorPass (Completed (u ''ask'') [] 0), UserDecision [] True [],
      SupervisorPass (Completed [] [] 0), ExecutorPass (Completed (u ''result'') [] 0)]"

lemma round_effect:
  assumes "view ps = (d, 0, True, True, [])" and "ex_status d = WaitingForConcertmaster"
  shows "\<exists>d'. view (pair_run confirming_platform cfg env args1 args1 ps confirm_round)
                 = (d', 0, True, True, []) \<and>
              ex_status d' = WaitingForConcertmaster \<and> ex_turn d' = ex_turn d + 1"
proof -
  let ?step = "pair_step confirming_platform cfg env args1 args1"
  let ?ps1 = "?step ps (SupervisorPass (Completed (u ''ask'') [] 0))"
  let ?d1 = "apply_user_wait envelope_confirm payload_proceed d"
  have v1: "view ?ps1 = (?d1, 0, True, True, [])"
    by (rule pair_supervisor_asks [OF assms(1) assms(2)]) simp
  let ?ps2 = "?step ?ps1 (UserDecision [] True [])"
  let ?d2 = "?d1\<lparr>ex_pending := pending_approved\<rparr>"
  have v2: "view ?ps2 = (?d2, 0, True, True, [])"
    by (rule pair_user_approves [OF v1 asked_pending])
  let ?ps3 = "?step ?ps2 (SupervisorPass (Completed [] [] 0))"
  let ?d3 = "apply_user reply_approved ?d2"
  have v3: "view ?ps3 = (?d3, 0, True, True, [])"
    by (rule pair_supervisor_resolves [OF v2]) (simp_all add: asked_other)
  let ?ps4 = "?step ?ps3 (ExecutorPass (Completed (u ''result'') [] 0))"
  let ?d4 = "apply_output (strip (u ''result'')) ?d3"
  have v4: "view ?ps4 = (?d4, 0, True, True, [])"
    by (rule pair_executor_answers [OF v3])
       (simp add: apply_user_def append_exchange_message_def)
  have run: "pair_run confirming_platform cfg env args1 args1 ps confirm_round = ?ps4"
    by (simp add: pair_run_def confirm_round_def)
  have "ex_status ?d4 = WaitingForConcertmaster \<and> ex_turn ?d4 = ex_turn d + 1"
    by (simp add: apply_output_def apply_user_def append_exchange_message_def asked_other)
  with v4 run show ?thesis by metis
qed

lemma rounds_effect:
  assumes "view ps = (d, 0, True, True, [])" and "ex_status d = WaitingForConcertmaster"
  shows "\<exists>d'. view (pair_run confirming_platform cfg env args1 args1 ps
                   (concat (replicate n confirm_round)))
                 = (d', 0, True, True, []) \<and>
              ex_status d' = WaitingForConcertmaster \<and> ex_turn d' = ex_turn d + int n"
  using assms
proof (induction n arbitrary: ps d)
  case 0
  then show ?case by (simp add: pair_run_def)
next
  case (Suc n)
  obtain d1 where d1: "view (pair_run confirming_platform cfg env args1 args1 ps confirm_round)
                 = (d1, 0, True, True, [])"
      "ex_status d1 = WaitingForConcertmaster" "ex_turn d1 = ex_turn d + 1"
    using round_effect [OF Suc.prems] by blast
  obtain d' where d': "view (pair_run confirming_platform cfg env args1 args1
        (pair_run confirming_platform cfg env args1 args1 ps confirm_round)
        (concat (replicate n confirm_round))) = (d', 0, True, True, [])"
      "ex_status d' = WaitingForConcertmaster" "ex_turn d' = ex_turn d1 + int n"
    using Suc.IH [OF d1(1) d1(2)] by blast
  have "pair_run confirming_platform cfg env args1 args1 ps
          (concat (replicate (Suc n) confirm_round))
        = pair_run confirming_platform cfg env args1 args1
            (pair_run confirming_platform cfg env args1 args1 ps confirm_round)
            (concat (replicate n confirm_round))"
    by (simp add: pair_run_def)
  with d' d1(3) show ?case by auto
qed

text \<open>
  Claim C3 (the code departs from it). With a cap of one turn, a supervisor that
  answers every review with a request for confirmation, and a user who approves each
  time, the turn counter of the record is \<open>n\<close> after \<open>n\<close> rounds, whatever \<open>n\<close> is, and
  the status is never forced to \<^verbatim>\<open>done\<close>: the cap is tested on the thread's own counter,
  which \<^verbatim>\<open>apply_user\<close> does not advance.
\<close>

theorem turn_exceeds_cap:
  "a_max_turns args1 = 1 \<and>
   ex_turn (p_exchange (pair_run confirming_platform cfg env args1 args1 (start_pair st)
      (concat (replicate n confirm_round)))) = int n \<and>
   ex_status (p_exchange (pair_run confirming_platform cfg env args1 args1 (start_pair st)
      (concat (replicate n confirm_round)))) = WaitingForConcertmaster \<and>
   p_cm_turn (pair_run confirming_platform cfg env args1 args1 (start_pair st)
      (concat (replicate n confirm_round))) = 0 \<and>
   p_cm_alive (pair_run confirming_platform cfg env args1 args1 (start_pair st)
      (concat (replicate n confirm_round)))"
proof -
  have v: "view (start_pair st) = (init_exchange, 0, True, True, [])"
    by (simp add: view_def start_pair_def)
  have s: "ex_status init_exchange = WaitingForConcertmaster" and t: "ex_turn init_exchange = 0"
    by (simp_all add: init_exchange_def)
  obtain d' where "view (pair_run confirming_platform cfg env args1 args1 (start_pair st)
                   (concat (replicate n confirm_round))) = (d', 0, True, True, [])"
      "ex_status d' = WaitingForConcertmaster" "ex_turn d' = ex_turn init_exchange + int n"
    using rounds_effect [OF v s] by blast
  then show ?thesis
    by (simp add: view_def t args1_def)
qed

section \<open>Task graph normalizer\<close>

subsection \<open>Splitting a free-text task into bullets\<close>











subsection \<open>Entries of the planner output\<close>










subsection \<open>Names of workers and ids of tasks\<close>

































































section \<open>Scheduler\<close>

























































end
